theory Spec2Isabelle
  imports
    Main
    "HOL-Library.Word"
    "HOL-Library.Mapping"
    "HOL-Library.Char_ord"
    "HOL-Library.List_Lexorder"
begin

section \<open>The HTTP service of app/main.go\<close>

text \<open>
  The three request handlers of \<^verbatim>\<open>app/main.go\<close> (\<^verbatim>\<open>healthHandler\<close>, \<^verbatim>\<open>userHandler\<close>,
  \<^verbatim>\<open>productsHandler\<close>) and the identity resolver \<^verbatim>\<open>tailscaleWhois\<close>, as functions of
  the request and of what the collaborators answer. A Go \<^verbatim>\<open>string\<close> is a byte sequence and
  so is a HOL \<open>string\<close>. A Go \<^verbatim>\<open>error\<close> is the text its \<^verbatim>\<open>Error()\<close> method returns; a nil
  error is \<open>None\<close>.
\<close>

subsection \<open>Strings, errors, numbers\<close>

type_synonym error = string
type_synonym byte = char
type_synonym int64 = "64 word"
type_synonym float64 = "64 word"

text \<open>
  Go's conversion \<^verbatim>\<open>string(b)\<close> of a byte \<^verbatim>\<open>b\<close> is a conversion from an integer: the result
  is the UTF-8 encoding of the code point numbered \<^verbatim>\<open>b\<close>, one byte below 0x80 and two bytes
  from 0x80 on.
\<close>

definition string_of_byte :: "byte \<Rightarrow> string" where
  "string_of_byte b =
     (let n = (of_char b :: nat)
      in if n < 128 then [b] else [char_of (192 + n div 64), char_of (128 + n mod 64)])"

text \<open>Decimal digits of a natural number, as \<^verbatim>\<open>%d\<close> and the time package print them.\<close>

fun digits :: "nat \<Rightarrow> string" where
  "digits n = (if n < 10 then [char_of (48 + n)] else digits (n div 10) @ [char_of (48 + n mod 10)])"

declare digits.simps [simp del]

text \<open>
  \<^verbatim>\<open>appendInt\<close> of package time: a minus sign for a negative number, then the digits of the
  absolute value padded with zeros on the left to \<open>width\<close> digits.
\<close>

definition appendInt :: "int \<Rightarrow> nat \<Rightarrow> string" where
  "appendInt x width =
     (let ds = digits (nat \<bar>x\<bar>)
      in (if x < 0 then ''-'' else []) @ replicate (width - length ds) (CHR ''0'') @ ds)"

text \<open>A float64 is its IEEE 754 bit pattern; it is finite unless all eleven exponent bits are set.\<close>

definition float64_finite :: "float64 \<Rightarrow> bool" where
  "float64_finite f = (take_bit 11 (drop_bit 52 (unat f)) \<noteq> 2047)"

subsection \<open>Time values and their layouts\<close>

text \<open>
  A \<^verbatim>\<open>time.Time\<close> as its methods \<^verbatim>\<open>Date\<close>, \<^verbatim>\<open>Clock\<close>, \<^verbatim>\<open>Nanosecond\<close> and \<^verbatim>\<open>Zone\<close> show it:
  the wall-clock fields in the value's own location and the offset of that location in
  seconds east of UTC.
\<close>

record Time =
  Year :: int
  Month :: nat
  Day :: nat
  Hour :: nat
  Minute :: nat
  Second :: nat
  Nanosecond :: nat
  ZoneOffset :: int

text \<open>
  The zone of the layouts \<^verbatim>\<open>Z07:00\<close>: \<^verbatim>\<open>Z\<close> for offset zero, else sign, hours and minutes.
  Go divides the offset by 60 rounding towards zero, so the sign is that of the whole minutes.
\<close>

definition format_zone :: "int \<Rightarrow> string" where
  "format_zone offset =
     (if offset = 0 then ''Z''
      else let zone = nat \<bar>offset\<bar> div 60
           in (if offset \<le> - 60 then ''-'' else ''+'')
              @ appendInt (int (zone div 60)) 2 @ '':'' @ appendInt (int (zone mod 60)) 2)"

definition format_date_clock :: "Time \<Rightarrow> string" where
  "format_date_clock t =
     appendInt (Year t) 4 @ ''-'' @ appendInt (int (Month t)) 2 @ ''-'' @ appendInt (int (Day t)) 2
     @ ''T'' @ appendInt (int (Hour t)) 2 @ '':'' @ appendInt (int (Minute t)) 2
     @ '':'' @ appendInt (int (Second t)) 2"

text \<open>\<^verbatim>\<open>t.Format(time.RFC3339)\<close>, layout \<^verbatim>\<open>2006-01-02T15:04:05Z07:00\<close>: no fraction of a second.\<close>

definition Format_RFC3339 :: "Time \<Rightarrow> string" where
  "Format_RFC3339 t = format_date_clock t @ format_zone (ZoneOffset t)"

text \<open>
  Layout \<^verbatim>\<open>RFC3339Nano\<close> adds the fraction: nothing for zero nanoseconds, else a dot and the
  nine digits without their trailing zeros.
\<close>

definition format_nanos :: "nat \<Rightarrow> string" where
  "format_nanos ns =
     (if ns = 0 then [] else ''.'' @ rev (dropWhile (\<lambda>c. c = CHR ''0'') (rev (appendInt (int ns) 9))))"

text \<open>
  \<^verbatim>\<open>Time.MarshalJSON\<close>: the \<^verbatim>\<open>RFC3339Nano\<close> text, refused (\<open>None\<close>) for a year outside
  0..9999 or a zone of 24 hours or more.
\<close>

definition Time_MarshalJSON :: "Time \<Rightarrow> string option" where
  "Time_MarshalJSON t =
     (if Year t < 0 \<or> 9999 < Year t then None
      else if ZoneOffset t \<noteq> 0 \<and> 24 \<le> (nat \<bar>ZoneOffset t\<bar> div 60) div 60 then None
      else Some (format_date_clock t @ format_nanos (Nanosecond t) @ format_zone (ZoneOffset t)))"

subsection \<open>JSON documents\<close>

text \<open>
  What \<^verbatim>\<open>encoding/json\<close> emits, as a document tree: what a reader of the response gets
  back. A number is the value handed to the encoder. A \<open>JString\<close> is the text of the string
  as written, which is the Go string coerced to valid UTF-8 (below); escapes change the
  spelling of a character, not the text. An object lists its members in the order the
  encoder writes them.
\<close>

datatype json =
    JNull
  | JBool bool
  | JInt int
  | JFloat float64
  | JString string
  | JArray "json list"
  | JObject "(string \<times> json) list"

text \<open>
  The length of the well-formed UTF-8 sequence at the head of a string, as
  \<^verbatim>\<open>utf8.DecodeRuneInString\<close> accepts it, and 0 where there is none: one byte below 0x80;
  a lead byte C2..DF, E0..EF or F0..F4 with one, two or three continuation bytes 80..BF,
  the first of them narrowed after E0 (A0..BF), ED (80..9F), F0 (90..BF) and F4 (80..8F).
\<close>

definition in_range :: "nat \<Rightarrow> nat \<Rightarrow> char \<Rightarrow> bool" where
  "in_range lo hi c = (lo \<le> (of_char c :: nat) \<and> (of_char c :: nat) \<le> hi)"

definition rune_len :: "string \<Rightarrow> nat" where
  "rune_len s =
     (case s of
        [] \<Rightarrow> 0
      | b0 # s1 \<Rightarrow>
          (let n = (of_char b0 :: nat)
           in if n < 128 then 1
              else if 194 \<le> n \<and> n \<le> 223 then
                (case s1 of
                   b1 # _ \<Rightarrow> if in_range 128 191 b1 then 2 else 0
                 | _ \<Rightarrow> 0)
              else if 224 \<le> n \<and> n \<le> 239 then
                (case s1 of
                   b1 # b2 # _ \<Rightarrow>
                     if in_range (if n = 224 then 160 else 128) (if n = 237 then 159 else 191) b1
                        \<and> in_range 128 191 b2
                     then 3 else 0
                 | _ \<Rightarrow> 0)
              else if 240 \<le> n \<and> n \<le> 244 then
                (case s1 of
                   b1 # b2 # b3 # _ \<Rightarrow>
                     if in_range (if n = 240 then 144 else 128) (if n = 244 then 143 else 191) b1
                        \<and> in_range 128 191 b2 \<and> in_range 128 191 b3
                     then 4 else 0
                 | _ \<Rightarrow> 0)
              else 0))"

text \<open>
  The encoder writes a Go string coerced to valid UTF-8: a well-formed sequence is kept,
  and every byte that does not start one is replaced by U+FFFD (the bytes \<^verbatim>\<open>EF BF BD\<close>).
\<close>

fun coerce_utf8 :: "string \<Rightarrow> string" where
  "coerce_utf8 [] = []"
| "coerce_utf8 (b # s) =
     (let n = rune_len (b # s)
      in if n = 0 then [CHR 0xEF, CHR 0xBF, CHR 0xBD] @ coerce_utf8 s
         else b # take (n - 1) s @ coerce_utf8 (drop (n - 1) s))"

definition encode_string :: "string \<Rightarrow> json" where
  "encode_string v = JString (coerce_utf8 v)"

text \<open>A struct field tagged \<^verbatim>\<open>omitempty\<close>: an empty string leaves the member out.\<close>

definition omitempty :: "string \<Rightarrow> string \<Rightarrow> (string \<times> json) list" where
  "omitempty name v = (if v = [] then [] else [(name, encode_string v)])"

text \<open>Standard base64 with padding, the encoding of a byte slice.\<close>

definition base64_digit :: "nat \<Rightarrow> char" where
  "base64_digit i =
     ''ABCDEFGHIJKLMNOPQRSTUVWXYZabcdefghijklmnopqrstuvwxyz0123456789+/'' ! (i mod 64)"

fun base64 :: "byte list \<Rightarrow> string" where
  "base64 [] = []"
| "base64 [a] =
     (let n = of_char a * 65536
      in [base64_digit (n div 262144), base64_digit (n div 4096), CHR ''='', CHR ''=''])"
| "base64 [a, b] =
     (let n = of_char a * 65536 + of_char b * 256
      in [base64_digit (n div 262144), base64_digit (n div 4096), base64_digit (n div 64),
          CHR ''=''])"
| "base64 (a # b # c # rest) =
     (let n = of_char a * 65536 + of_char b * 256 + of_char c
      in [base64_digit (n div 262144), base64_digit (n div 4096), base64_digit (n div 64),
          base64_digit n] @ base64 rest)"

subsection \<open>The response writer\<close>

text \<open>
  \<^verbatim>\<open>http.ResponseWriter\<close> as the state a handler leaves behind: the header map, the status
  line once it is written, and the writes to the body. One \<open>JSONLine\<close> is one
  \<^verbatim>\<open>Encode\<close> call (the document and a newline), one \<open>TextLine\<close> is one \<^verbatim>\<open>Fprintln\<close>
  (the text and a newline).
\<close>

datatype chunk = JSONLine json | TextLine string

record ResponseWriter =
  header :: "string \<rightharpoonup> string"
  status :: "nat option"
  written :: "chunk list"

definition newResponseWriter :: ResponseWriter where
  "newResponseWriter = \<lparr>header = Map.empty, status = None, written = []\<rparr>"

text \<open>Header changes after the status line has gone out do not reach the client.\<close>

definition Header_Set :: "string \<Rightarrow> string \<Rightarrow> ResponseWriter \<Rightarrow> ResponseWriter" where
  "Header_Set k v w = (if status w = None then w\<lparr>header := (header w)(k \<mapsto> v)\<rparr> else w)"

definition Header_Del :: "string \<Rightarrow> ResponseWriter \<Rightarrow> ResponseWriter" where
  "Header_Del k w = (if status w = None then w\<lparr>header := (header w)(k := None)\<rparr> else w)"

definition WriteHeader :: "nat \<Rightarrow> ResponseWriter \<Rightarrow> ResponseWriter" where
  "WriteHeader code w = (if status w = None then w\<lparr>status := Some code\<rparr> else w)"

text \<open>The first write sends status 200 when no status was written before.\<close>

definition Write :: "chunk \<Rightarrow> ResponseWriter \<Rightarrow> ResponseWriter" where
  "Write c w = (let w' = WriteHeader 200 w in w'\<lparr>written := written w' @ [c]\<rparr>)"

text \<open>The status the client sees: 200 also when the handler returns without writing.\<close>

definition statusCode :: "ResponseWriter \<Rightarrow> nat" where
  "statusCode w = (case status w of None \<Rightarrow> 200 | Some code \<Rightarrow> code)"

text \<open>
  \<^verbatim>\<open>json.NewEncoder(w).Encode(v)\<close>: when marshalling fails (\<open>None\<close>) nothing is written and
  the error is returned; the handlers ignore it.
\<close>

definition Encode :: "json option \<Rightarrow> ResponseWriter \<Rightarrow> ResponseWriter" where
  "Encode doc w = (case doc of None \<Rightarrow> w | Some j \<Rightarrow> Write (JSONLine j) w)"

text \<open>\<^verbatim>\<open>http.Error\<close>: a plain-text reply, whatever content type was set before.\<close>

definition http_Error :: "string \<Rightarrow> nat \<Rightarrow> ResponseWriter \<Rightarrow> ResponseWriter" where
  "http_Error msg code w =
     Write (TextLine msg)
       (WriteHeader code
         (Header_Set ''X-Content-Type-Options'' ''nosniff''
           (Header_Set ''Content-Type'' ''text/plain; charset=utf-8''
             (Header_Del ''Content-Length'' w))))"

subsection \<open>The request\<close>

text \<open>
  \<^verbatim>\<open>http.Header\<close> maps a canonical header name to its values. \<^verbatim>\<open>Get\<close> returns the first
  value of the name, or the empty string when there is none. The two names the program asks
  for are written in canonical form already.
\<close>

type_synonym Header = "string \<rightharpoonup> string list"

definition Header_Get :: "Header \<Rightarrow> string \<Rightarrow> string" where
  "Header_Get h key = (case h key of None \<Rightarrow> [] | Some [] \<Rightarrow> [] | Some (v # _) \<Rightarrow> v)"

record Request =
  Header :: Header
  RemoteAddr :: string

subsection \<open>The Tailscale local client\<close>

text \<open>
  The parts of \<^verbatim>\<open>tailcfg.Node\<close>, \<^verbatim>\<open>tailcfg.UserProfile\<close>, \<^verbatim>\<open>apitype.WhoIsResponse\<close> and
  \<^verbatim>\<open>ipnstate.Status\<close> the program reads. \<^verbatim>\<open>WhoIs\<close> answers with an error or with a
  response whose node is set; the user profile may be nil. \<^verbatim>\<open>Status\<close> answers with a
  status pointer and an error, and the program tests both.
\<close>

record Node =
  Tags :: "string list"

definition IsTagged :: "Node \<Rightarrow> bool" where
  "IsTagged n = (Tags n \<noteq> [])"

record UserProfile =
  LoginName :: string
  DisplayName :: string

record WhoIsResponse =
  Node :: Node
  UserProfile :: "UserProfile option"

record ipnstate_Status =
  BackendState :: string

record LocalClient =
  Status :: "ipnstate_Status option \<times> error option"
  WhoIs :: "string \<Rightarrow> error + WhoIsResponse"

subsection \<open>The database\<close>

text \<open>
  A value as the driver hands it to \<^verbatim>\<open>Scan\<close> into an \<^verbatim>\<open>interface{}\<close>: nil, int64, float64,
  bool, a byte slice, a string or a \<^verbatim>\<open>time.Time\<close>.
\<close>

datatype Value =
    VNil
  | VInt int64
  | VFloat float64
  | VBool bool
  | VBytes "byte list"
  | VString string
  | VTime Time

text \<open>
  An open cursor: what \<^verbatim>\<open>Columns\<close> answers, the rows \<^verbatim>\<open>Next\<close> steps through (for each
  either the error \<^verbatim>\<open>Scan\<close> meets or the row's values), and what \<^verbatim>\<open>Err\<close> answers once
  \<^verbatim>\<open>Next\<close> has returned false.
\<close>

record Rows =
  Columns :: "error + string list"
  Next :: "(error + Value list) list"
  Err :: "error option"

text \<open>
  \<^verbatim>\<open>rows.Scan(valuePtrs...)\<close> with one \<^verbatim>\<open>*interface{}\<close> per column: fails as the row says, or
  when the row does not have as many values as there are destinations; else every value is
  stored as it is.
\<close>

definition Scan :: "string list \<Rightarrow> error + Value list \<Rightarrow> error + Value list" where
  "Scan columns row =
     (case row of
        Inl err \<Rightarrow> Inl err
      | Inr vals \<Rightarrow>
          if length vals \<noteq> length columns
          then Inl (''sql: expected '' @ digits (length vals)
                    @ '' destination arguments in Scan, not '' @ digits (length columns))
          else Inr vals)"

record DB =
  PingContext :: "error option"
  QueryContext :: "string \<Rightarrow> error + Rows"

subsection \<open>The types of main.go\<close>

record Server =
  db :: DB
  client :: LocalClient
  tsnetMode :: bool

record UserInfo =
  Connected :: bool
  LoginName :: string
  DisplayName :: string
  FirstInitial :: string
  Error :: string

record WhoIsData =
  LoginName :: string
  DisplayName :: string

record HealthResponse =
  Status :: string
  Database :: string
  Tailscale :: string

text \<open>The struct tags: \<^verbatim>\<open>connected\<close> is always written, the four strings are \<^verbatim>\<open>omitempty\<close>.\<close>

definition json_UserInfo :: "UserInfo \<Rightarrow> json" where
  "json_UserInfo u =
     JObject ([(''connected'', JBool (Connected u))]
              @ omitempty ''login_name'' (UserInfo.LoginName u)
              @ omitempty ''display_name'' (UserInfo.DisplayName u)
              @ omitempty ''first_initial'' (FirstInitial u)
              @ omitempty ''error'' (Error u))"

definition json_HealthResponse :: "HealthResponse \<Rightarrow> json" where
  "json_HealthResponse h =
     JObject [(''status'', encode_string (HealthResponse.Status h)),
              (''database'', encode_string (Database h)),
              (''tailscale'', encode_string (Tailscale h))]"

subsection \<open>healthHandler\<close>

definition healthHandler :: "Server \<Rightarrow> ResponseWriter \<Rightarrow> Request \<Rightarrow> ResponseWriter" where
  "healthHandler s w r =
     (let w = Header_Set ''Content-Type'' ''application/json'' w;
          health = \<lparr>HealthResponse.Status = ''ok'', Database = ''disconnected'',
                    Tailscale = ''unknown''\<rparr>;
          health = (case PingContext (db s) of
                      None \<Rightarrow> health\<lparr>Database := ''connected''\<rparr>
                    | Some err \<Rightarrow> health);
          (status, err) = LocalClient.Status (client s);
          health = (case (err, status) of
                      (None, Some st) \<Rightarrow>
                        if BackendState st = ''Running''
                        then health\<lparr>Tailscale := ''connected''\<rparr>
                        else health\<lparr>Tailscale := BackendState st\<rparr>
                    | _ \<Rightarrow> health);
          w = WriteHeader 200 w
      in Encode (Some (json_HealthResponse health)) w)"

subsection \<open>tailscaleWhois and userHandler\<close>

text \<open>
  What the identity path does besides answering: the lookups it sends to the local client
  and the lines it logs, in order.
\<close>

datatype event = CallWhoIs string | LogPrintf string

text \<open>
  The result is the pair the Go function returns (the \<^verbatim>\<open>*WhoIsData\<close>, nil as \<open>None\<close>, and the
  error) and the events of the call.
\<close>

definition tailscaleWhois ::
  "Server \<Rightarrow> Request \<Rightarrow> (WhoIsData option \<times> error option) \<times> event list" where
  "tailscaleWhois s r =
     (if Header_Get (Header r) ''Tailscale-User-Login'' \<noteq> []
      then ((Some \<lparr>WhoIsData.LoginName = Header_Get (Header r) ''Tailscale-User-Login'',
                    WhoIsData.DisplayName = Header_Get (Header r) ''Tailscale-User-Name''\<rparr>,
             None), [])
      else
        (case WhoIs (client s) (RemoteAddr r) of
           Inl err \<Rightarrow>
             if tsnetMode s
             then ((None, Some (''failed to identify user via tsnet: '' @ err)),
                   [CallWhoIs (RemoteAddr r)])
             else ((None, Some ''not accessed via Tailscale - use 'tailscale serve' or set TS_AUTHKEY to run in tsnet mode''),
                   [CallWhoIs (RemoteAddr r)])
         | Inr whois \<Rightarrow>
             if IsTagged (Node whois)
             then ((None, Some ''tagged nodes do not have a user identity''),
                   [CallWhoIs (RemoteAddr r)])
             else
               (case UserProfile whois of
                  None \<Rightarrow> ((None, Some ''failed to identify remote user''),
                            [CallWhoIs (RemoteAddr r)])
                | Some p \<Rightarrow>
                    if UserProfile.LoginName p = []
                    then ((None, Some ''failed to identify remote user''),
                          [CallWhoIs (RemoteAddr r)])
                    else ((Some \<lparr>WhoIsData.LoginName = UserProfile.LoginName p,
                                  WhoIsData.DisplayName = UserProfile.DisplayName p\<rparr>, None),
                          [CallWhoIs (RemoteAddr r)]))))"

definition userHandler ::
  "Server \<Rightarrow> ResponseWriter \<Rightarrow> Request \<Rightarrow> ResponseWriter \<times> event list" where
  "userHandler s w r =
     (let w = Header_Set ''Content-Type'' ''application/json'' w;
          userInfo = \<lparr>Connected = False, UserInfo.LoginName = [], UserInfo.DisplayName = [],
                      FirstInitial = [], Error = []\<rparr>;
          ((whois, err), calls) = tailscaleWhois s r;
          (userInfo, logs) =
            (case err of
               Some e \<Rightarrow> (userInfo\<lparr>Error := ''Tailscale not available''\<rparr>,
                           [LogPrintf (''Tailscale lookup warning: '' @ e)])
             | None \<Rightarrow> (userInfo, []));
          userInfo =
            (case whois of
               Some u \<Rightarrow>
                 (let userInfo = userInfo\<lparr>Connected := True,
                                           UserInfo.LoginName := WhoIsData.LoginName u,
                                           UserInfo.DisplayName := WhoIsData.DisplayName u\<rparr>
                  in case UserInfo.DisplayName userInfo of
                       c # _ \<Rightarrow> userInfo\<lparr>FirstInitial := string_of_byte c\<rparr>
                     | [] \<Rightarrow>
                         (case UserInfo.LoginName userInfo of
                            c # _ \<Rightarrow> userInfo\<lparr>FirstInitial := string_of_byte c\<rparr>
                          | [] \<Rightarrow> userInfo))
             | None \<Rightarrow> userInfo)
      in (Encode (Some (json_UserInfo userInfo)) w, calls @ logs))"

subsection \<open>productsHandler\<close>

text \<open>
  A product is a Go map from column name to value: a finite map with no order of its own.
  The slice of products starts as the nil slice (\<open>None\<close>), and \<^verbatim>\<open>append\<close> to a nil slice
  allocates.
\<close>

type_synonym product = "(string, Value) mapping"

definition append_slice :: "'a list option \<Rightarrow> 'a \<Rightarrow> 'a list option" where
  "append_slice xs x = (case xs of None \<Rightarrow> Some [x] | Some ys \<Rightarrow> Some (ys @ [x]))"

text \<open>
  The encoder on the values a product can hold, on a map (the keys sorted in ascending byte
  order, then each written as a string) and on the slice (a nil slice is \<^verbatim>\<open>null\<close>). A float
  that is not finite, or a time it cannot marshal, makes the whole encoding fail.
\<close>

definition encode_value :: "Value \<Rightarrow> json option" where
  "encode_value v =
     (case v of
        VNil \<Rightarrow> Some JNull
      | VInt i \<Rightarrow> Some (JInt (sint i))
      | VFloat f \<Rightarrow> if float64_finite f then Some (JFloat f) else None
      | VBool b \<Rightarrow> Some (JBool b)
      | VBytes b \<Rightarrow> Some (JString (base64 b))
      | VString s \<Rightarrow> Some (encode_string s)
      | VTime t \<Rightarrow> map_option JString (Time_MarshalJSON t))"

definition encode_map :: "product \<Rightarrow> json option" where
  "encode_map m =
     map_option JObject
       (those (map (\<lambda>k. Option.bind (Mapping.lookup m k)
                          (\<lambda>v. map_option (Pair (coerce_utf8 k)) (encode_value v)))
                   (Mapping.ordered_keys m)))"

definition encode_products :: "product list option \<Rightarrow> json option" where
  "encode_products products =
     (case products of
        None \<Rightarrow> Some JNull
      | Some ms \<Rightarrow> map_option JArray (those (map encode_map ms)))"

definition query :: string where
  "query = [CHR 0x0A, CHR 0x09, CHR 0x09] @ ''SELECT *''
         @ [CHR 0x0A, CHR 0x09, CHR 0x09] @ ''FROM products''
         @ [CHR 0x0A, CHR 0x09, CHR 0x09] @ ''ORDER BY created_at DESC''
         @ [CHR 0x0A, CHR 0x09, CHR 0x09] @ ''LIMIT 100''
         @ [CHR 0x0A, CHR 0x09]"

text \<open>The inner loop over the columns: one coerced value stored per column.\<close>

definition productsHandler_row :: "string list \<Rightarrow> Value list \<Rightarrow> product" where
  "productsHandler_row columns values =
     fold (\<lambda>(col, val) product.
             (case val of
                VBytes b \<Rightarrow> Mapping.update col (VString b) product
              | VTime t \<Rightarrow> Mapping.update col (VString (Format_RFC3339 t)) product
              | _ \<Rightarrow> Mapping.update col val product))
          (zip columns values) Mapping.empty"

text \<open>The loop \<^verbatim>\<open>for rows.Next()\<close>: a failing \<^verbatim>\<open>Scan\<close> leaves the loop with its error.\<close>

fun productsHandler_loop ::
  "string list \<Rightarrow> (error + Value list) list \<Rightarrow> product list option \<Rightarrow> error + product list option"
where
  "productsHandler_loop columns [] products = Inr products"
| "productsHandler_loop columns (row # rest) products =
     (case Scan columns row of
        Inl err \<Rightarrow> Inl err
      | Inr values \<Rightarrow>
          productsHandler_loop columns rest
            (append_slice products (productsHandler_row columns values)))"

definition productsHandler :: "Server \<Rightarrow> ResponseWriter \<Rightarrow> Request \<Rightarrow> ResponseWriter" where
  \<open>productsHandler s w r =
     (let w = Header_Set ''Content-Type'' ''application/json'' w
      in case QueryContext (db s) query of
           Inl err \<Rightarrow>
             http_Error (''{"error": "Failed to query database: '' @ err @ ''"}'') 500 w
         | Inr rows \<Rightarrow>
             (case Columns rows of
                Inl err \<Rightarrow>
                  http_Error (''{"error": "Failed to get columns: '' @ err @ ''"}'') 500 w
              | Inr columns \<Rightarrow>
                  (case productsHandler_loop columns (Next rows) None of
                     Inl err \<Rightarrow>
                       http_Error (''{"error": "Failed to scan row: '' @ err @ ''"}'') 500 w
                   | Inr products \<Rightarrow>
                       (case Err rows of
                          Some err \<Rightarrow>
                            http_Error (''{"error": "Error iterating rows: '' @ err @ ''"}'')
                              500 w
                        | None \<Rightarrow> Encode (encode_products products) w))))\<close>

subsection \<open>Notions the claims use\<close>

text \<open>
  The first character of a string read as UTF-8: the bytes of its first code point, whose
  number of bytes the leading byte gives (a byte that cannot lead counts as one character).
\<close>

definition first_char :: "string \<Rightarrow> string" where
  "first_char s =
     (case s of
        [] \<Rightarrow> []
      | b # _ \<Rightarrow>
          (let n = (of_char b :: nat)
           in take (if n < 128 then 1
                    else if 192 \<le> n \<and> n < 224 then 2
                    else if 224 \<le> n \<and> n < 240 then 3
                    else if 240 \<le> n \<and> n < 248 then 4
                    else 1) s))"

text \<open>
  A reader for the one JSON text the error replies aim at, an object with the single member
  \<^verbatim>\<open>error\<close> whose value is a string: white space between the tokens, and in a string no
  bare quote, backslash or control character. It returns the member's text as written.
\<close>

fun skip_ws :: "string \<Rightarrow> string" where
  "skip_ws [] = []"
| "skip_ws (c # cs) =
     (if c = CHR '' '' \<or> c = CHR 0x09 \<or> c = CHR 0x0A \<or> c = CHR 0x0D then skip_ws cs else c # cs)"

definition expect :: "char \<Rightarrow> string \<Rightarrow> string option" where
  "expect c text = (case skip_ws text of [] \<Rightarrow> None | d # rest \<Rightarrow> if d = c then Some rest else None)"

definition hex_digit :: "char \<Rightarrow> bool" where
  "hex_digit c = (c \<in> set ''0123456789abcdefABCDEF'')"

fun json_string_tail :: "string \<Rightarrow> (string \<times> string) option" where
  "json_string_tail [] = None"
| "json_string_tail (c # cs) =
     (if c = CHR 0x22 then Some ([], cs)
      else if c = CHR 0x5C then
        (case cs of
           [] \<Rightarrow> None
         | e # cs' \<Rightarrow>
             if e \<in> set [CHR 0x22, CHR 0x5C, CHR ''/'', CHR ''b'', CHR ''f'', CHR ''n'', CHR ''r'', CHR ''t'']
             then map_option (\<lambda>(s, rest). (c # e # s, rest)) (json_string_tail cs')
             else if e = CHR ''u'' then
               (case cs' of
                  h1 # h2 # h3 # h4 # cs'' \<Rightarrow>
                    if hex_digit h1 \<and> hex_digit h2 \<and> hex_digit h3 \<and> hex_digit h4
                    then map_option (\<lambda>(s, rest). (c # e # h1 # h2 # h3 # h4 # s, rest))
                           (json_string_tail cs'')
                    else None
                | _ \<Rightarrow> None)
             else None)
      else if (of_char c :: nat) < 32 then None
      else map_option (\<lambda>(s, rest). (c # s, rest)) (json_string_tail cs))"

definition json_string :: "string \<Rightarrow> (string \<times> string) option" where
  "json_string text = Option.bind (expect (CHR 0x22) text) json_string_tail"

definition json_error_object :: "string \<Rightarrow> string option" where
  "json_error_object text =
     Option.bind (expect (CHR ''{'') text) (\<lambda>t1.
     Option.bind (json_string t1) (\<lambda>(key, t2).
       if key = ''error''
       then Option.bind (expect (CHR '':'') t2) (\<lambda>t3.
            Option.bind (json_string t3) (\<lambda>(msg, t4).
            Option.bind (expect (CHR ''}'') t4) (\<lambda>t5.
              if skip_ws t5 = [] then Some msg else None)))
       else None))"






text \<open>A string that is valid UTF-8: well-formed sequences from end to end.\<close>

fun utf8_valid :: "string \<Rightarrow> bool" where
  "utf8_valid [] = True"
| "utf8_valid (b # s) =
     (let n = rune_len (b # s) in n \<noteq> 0 \<and> utf8_valid (drop (n - 1) s))"


text \<open>The elements of a slice; the nil slice has none.\<close>

definition elems :: "'a list option \<Rightarrow> 'a list" where
  "elems xs = (case xs of None \<Rightarrow> [] | Some ys \<Rightarrow> ys)"

text \<open>A member of a JSON object by its name; \<open>None\<close> when the object has no such member.\<close>

definition member :: "json \<Rightarrow> string \<Rightarrow> json option" where
  "member doc name = (case doc of JObject members \<Rightarrow> map_of members name | _ \<Rightarrow> None)"

subsection \<open>Servers and requests used as examples\<close>

text \<open>
  A local client that cannot reach a Tailscale daemon; a server in regular mode whose
  database cannot be reached either; a server in tsnet mode whose lookups resolve a user
  with a display name that starts with a two-byte character (\<^verbatim>\<open>C3 89\<close>, a capital E with
  acute accent); a request that came directly; a request through \<^verbatim>\<open>tailscale serve\<close> with
  both identity headers (the name holds a two-byte character); a request whose login header
  starts with the byte \<^verbatim>\<open>FF\<close>, which is not UTF-8; a request with the login header only,
  the login starting with a two-byte character (\<^verbatim>\<open>C3 A9\<close>, a small e with acute accent); a
  request with two login header lines, the first of them empty; a local client whose daemon
  answers with the backend state \<^verbatim>\<open>Stopped\<close>.
\<close>

definition offline_client :: LocalClient where
  "offline_client =
     \<lparr>LocalClient.Status = (None, Some ''Failed to connect to local Tailscale daemon''),
      WhoIs = (\<lambda>addr. Inl ''Failed to connect to local Tailscale daemon'')\<rparr>"

definition offline_server :: Server where
  "offline_server =
     \<lparr>db = \<lparr>PingContext = Some ''dial tcp 127.0.0.1:5432: connect: connection refused'',
             QueryContext = (\<lambda>q. Inl ''dial tcp 127.0.0.1:5432: connect: connection refused'')\<rparr>,
      client = offline_client, tsnetMode = False\<rparr>"

definition tsnet_server :: Server where
  "tsnet_server =
     \<lparr>db = \<lparr>PingContext = None, QueryContext = (\<lambda>q. Inl ''context deadline exceeded'')\<rparr>,
      client = \<lparr>LocalClient.Status = (Some \<lparr>BackendState = ''Running''\<rparr>, None),
                 WhoIs = (\<lambda>addr. Inr \<lparr>Node = \<lparr>Tags = []\<rparr>,
                                      UserProfile = Some \<lparr>UserProfile.LoginName = ''emile@example.com'',
                                                          UserProfile.DisplayName = CHR 0xC3 # CHR 0x89 # ''mile''\<rparr>\<rparr>)\<rparr>,
      tsnetMode = True\<rparr>"

definition direct_request :: Request where
  "direct_request = \<lparr>Header = Map.empty, RemoteAddr = ''203.0.113.7:51234''\<rparr>"

definition serve_request :: Request where
  "serve_request =
     \<lparr>Header = [''Tailscale-User-Login'' \<mapsto> [''alice@example.com''],
                 ''Tailscale-User-Name'' \<mapsto> [CHR ''Z'' # CHR ''o'' # CHR 0xC3 # CHR 0xAB # '' Smith'']],
      RemoteAddr = ''127.0.0.1:40000''\<rparr>"

definition bad_utf8_request :: Request where
  "bad_utf8_request =
     \<lparr>Header = [''Tailscale-User-Login'' \<mapsto> [CHR 0xFF # ''oo@example.com'']],
      RemoteAddr = ''203.0.113.7:51234''\<rparr>"

definition accent_login_request :: Request where
  "accent_login_request =
     \<lparr>Header = [''Tailscale-User-Login'' \<mapsto> [CHR 0xC3 # CHR 0xA9 # ''mile@example.com'']],
      RemoteAddr = ''127.0.0.1:40000''\<rparr>"

definition second_value_request :: Request where
  "second_value_request =
     \<lparr>Header = [''Tailscale-User-Login'' \<mapsto> [[], ''bob@example.com'']],
      RemoteAddr = ''203.0.113.7:51234''\<rparr>"

definition stopped_client :: LocalClient where
  "stopped_client =
     \<lparr>LocalClient.Status = (Some \<lparr>BackendState = ''Stopped''\<rparr>, None),
      WhoIs = (\<lambda>addr. Inl ''tailscaled is stopped'')\<rparr>"

text \<open>
  Servers in regular mode without a daemon, told apart by what the database answers: a
  products table without rows; a result whose columns come as \<^verbatim>\<open>name\<close>, \<^verbatim>\<open>id\<close> with one
  row; a query that fails because the table is missing (the driver's message quotes the
  table name); a result with a float column that holds NaN.
\<close>

definition empty_table_server :: Server where
  "empty_table_server =
     \<lparr>db = \<lparr>PingContext = None,
             QueryContext = (\<lambda>q. Inr \<lparr>Columns = Inr [''id'', ''name'', ''description'', ''price'',
                                                      ''stock_quantity'', ''category'',
                                                      ''created_at'', ''updated_at''],
                                       Next = [], Err = None\<rparr>)\<rparr>,
      client = offline_client, tsnetMode = False\<rparr>"

definition name_first_server :: Server where
  "name_first_server =
     \<lparr>db = \<lparr>PingContext = None,
             QueryContext = (\<lambda>q. Inr \<lparr>Columns = Inr [''name'', ''id''],
                                       Next = [Inr [VString ''Homelab'', VInt 5]],
                                       Err = None\<rparr>)\<rparr>,
      client = offline_client, tsnetMode = False\<rparr>"

definition missing_table_server :: Server where
  \<open>missing_table_server =
     \<lparr>db = \<lparr>PingContext = None,
             QueryContext = (\<lambda>q. Inl ''pq: relation "products" does not exist'')\<rparr>,
      client = offline_client, tsnetMode = False\<rparr>\<close>

definition nan_rating_server :: Server where
  "nan_rating_server =
     \<lparr>db = \<lparr>PingContext = None,
             QueryContext = (\<lambda>q. Inr \<lparr>Columns = Inr [''id'', ''rating''],
                                       Next = [Inr [VInt 1, VFloat 0x7FF8000000000000]],
                                       Err = None\<rparr>)\<rparr>,
      client = offline_client, tsnetMode = False\<rparr>"

section \<open>Properties\<close>

subsection \<open>The response writer\<close>

lemmas writer_defs =
  newResponseWriter_def Header_Set_def Header_Del_def WriteHeader_def Write_def Encode_def
  http_Error_def statusCode_def

text \<open>The first write to a fresh writer sends status 200; a failed encoding writes nothing.\<close>

lemma Encode_first_write:
  assumes "status w = None" and "written w = []"
  shows "statusCode (Encode doc w) = 200"
    and "written (Encode doc w) = (case doc of None \<Rightarrow> [] | Some j \<Rightarrow> [JSONLine j])"
  using assms by (cases doc; simp add: Encode_def Write_def WriteHeader_def statusCode_def)+

subsection \<open>Strings as the encoder writes them\<close>

text \<open>
  A string of bytes below 0x80, and more generally a string that is valid UTF-8, is written
  as it is; so is the conversion of a byte, which is the encoding of one code point.
\<close>

lemma rune_len_ascii:
  assumes "(of_char b :: nat) < 128"
  shows "rune_len (b # s) = 1"
  using assms by (simp add: rune_len_def)

lemma coerce_utf8_ascii:
  assumes "list_all (\<lambda>c. (of_char c :: nat) < 128) s"
  shows "coerce_utf8 s = s"
  using assms by (induction s) (simp_all add: rune_len_ascii)

lemma coerce_utf8_valid:
  assumes "utf8_valid s"
  shows "coerce_utf8 s = s"
  using assms
proof (induction s rule: coerce_utf8.induct)
  case 1
  then show ?case by simp
next
  case (2 b s)
  then show ?case
    by (simp add: Let_def)
qed

lemma utf8_valid_ascii:
  assumes "list_all (\<lambda>c. (of_char c :: nat) < 128) s"
  shows "utf8_valid s"
  using assms by (induction s) (simp_all add: rune_len_ascii)

lemma coerce_utf8_string_of_byte:
  "coerce_utf8 (string_of_byte c) = string_of_byte c"
proof (cases "(of_char c :: nat) < 128")
  case True
  then show ?thesis
    by (simp add: string_of_byte_def rune_len_ascii)
next
  case False
  define n where "n = (of_char c :: nat)"
  have n: "128 \<le> n" "n < 256"
    using False by (simp_all add: n_def)
  then have d: "n div 64 = 2 \<or> n div 64 = 3"
    by linarith
  have m: "n mod 64 < 64" by simp
  have "rune_len [char_of (192 + n div 64), char_of (128 + n mod 64)] = 2"
    using d m by (auto simp add: rune_len_def in_range_def Let_def)
  then show ?thesis
    using False by (simp add: string_of_byte_def n_def [symmetric])
qed

lemma coerce_utf8_Nil_iff: "coerce_utf8 s = [] \<longleftrightarrow> s = []"
  by (cases s) (simp_all add: Let_def)


text \<open>What the encoder writes is valid UTF-8.\<close>

lemma rune_len_prefix:
  assumes "rune_len (b # s) = n" and "n \<noteq> 0"
  shows "rune_len (b # take (n - 1) s @ t) = n"
  using assms
  by (auto simp add: rune_len_def Let_def split: if_splits list.splits)

lemma utf8_valid_replacement:
  "utf8_valid (CHR 0xEF # CHR 0xBF # CHR 0xBD # s) = utf8_valid s"
  by (simp add: rune_len_def in_range_def)

lemma utf8_valid_coerce_utf8: "utf8_valid (coerce_utf8 s)"
proof (induction s rule: coerce_utf8.induct)
  case 1
  then show ?case by simp
next
  case (2 b s)
  define n where "n = rune_len (b # s)"
  show ?case
  proof (cases "n = 0")
    case True
    have "utf8_valid (coerce_utf8 s)"
      using 2(1) True n_def by blast
    moreover have "coerce_utf8 (b # s) = CHR 0xEF # CHR 0xBF # CHR 0xBD # coerce_utf8 s"
      using True by (simp add: n_def [symmetric])
    ultimately show ?thesis
      by (simp only: utf8_valid_replacement)
  next
    case False
    have l: "n - 1 \<le> length s"
      using False by (auto simp add: n_def rune_len_def Let_def split: if_splits list.splits)
    have r: "rune_len (b # take (n - 1) s @ coerce_utf8 (drop (n - 1) s)) = n"
      by (rule rune_len_prefix [OF n_def [symmetric] False])
    have "utf8_valid (coerce_utf8 (drop (n - 1) s))"
      using 2(2) False by (simp add: n_def)
    then show ?thesis
      using False l r by (simp add: n_def [symmetric] Let_def)
  qed
qed

text \<open>
  Ill-formed input: after the euro sign (\<^verbatim>\<open>E2 82 AC\<close>) a sequence that is cut short, the
  overlong \<^verbatim>\<open>C0 80\<close> and the surrogate \<^verbatim>\<open>ED A0 80\<close> are replaced byte by byte; the four-byte
  character at the end is kept.
\<close>

lemma coerce_utf8_malformed:
  "coerce_utf8 [CHR 0xE2, CHR 0x82, CHR 0xAC, CHR 0xE2, CHR 0x82, CHR 0xC0, CHR 0x80,
                CHR 0xED, CHR 0xA0, CHR 0x80, CHR 0xF0, CHR 0x9F, CHR 0x98, CHR 0x80]
     = [CHR 0xE2, CHR 0x82, CHR 0xAC]
       @ concat (replicate 7 [CHR 0xEF, CHR 0xBF, CHR 0xBD])
       @ [CHR 0xF0, CHR 0x9F, CHR 0x98, CHR 0x80]"
  by (simp add: rune_len_def in_range_def numeral_eq_Suc)

subsection \<open>The time layout\<close>

text \<open>
  Numbers of at most two and four digits as \<^verbatim>\<open>appendInt\<close> pads them, and the reader on
  them; from there: for a year from 0 to 9999, fields of a wall clock and a zone of less
  than a day, reading the text of layout \<^verbatim>\<open>RFC3339\<close> gives back the fields.
\<close>

lemma of_char_digit:
  assumes "k < 10"
  shows "(of_char (char_of (48 + k :: nat)) :: nat) - 48 = k"
  using assms by simp



















subsection \<open>The identity path\<close>

lemma tailscaleWhois_header:
  assumes "Header_Get (Header r) ''Tailscale-User-Login'' \<noteq> []"
  shows "tailscaleWhois s r =
           ((Some \<lparr>LoginName = Header_Get (Header r) ''Tailscale-User-Login'',
                    DisplayName = Header_Get (Header r) ''Tailscale-User-Name''\<rparr>, None), [])"
  using assms by (simp add: tailscaleWhois_def)

lemma tailscaleWhois_error_no_data:
  assumes "snd (fst (tailscaleWhois s r)) = Some e"
  shows "fst (tailscaleWhois s r) = (None, Some e)"
    and "snd (tailscaleWhois s r) = [CallWhoIs (RemoteAddr r)]"
  using assms
  by (auto simp add: tailscaleWhois_def split: if_splits sum.splits option.splits)

lemma userHandler_resolved:
  assumes "tailscaleWhois s r = ((Some u, None), calls)"
  shows "userHandler s newResponseWriter r =
           (\<lparr>header = [''Content-Type'' \<mapsto> ''application/json''], status = Some 200,
              written = [JSONLine (json_UserInfo
                 \<lparr>Connected = True, UserInfo.LoginName = WhoIsData.LoginName u,
                    UserInfo.DisplayName = WhoIsData.DisplayName u,
                    FirstInitial =
                      (case WhoIsData.DisplayName u of
                         c # _ \<Rightarrow> string_of_byte c
                       | [] \<Rightarrow> (case WhoIsData.LoginName u of c # _ \<Rightarrow> string_of_byte c | [] \<Rightarrow> [])),
                    Error = []\<rparr>)]\<rparr>, calls)"
  using assms
  by (simp add: userHandler_def writer_defs split: list.splits)

text \<open>The fixed text of the error member is written as it is.\<close>

lemma encode_string_not_available:
  "encode_string ''Tailscale not available'' = JString ''Tailscale not available''"
  by (simp add: encode_string_def rune_len_def in_range_def)

lemma userHandler_failed:
  assumes "tailscaleWhois s r = ((None, Some e), calls)"
  shows "userHandler s newResponseWriter r =
           (\<lparr>header = [''Content-Type'' \<mapsto> ''application/json''], status = Some 200,
              written = [JSONLine (JObject [(''connected'', JBool False),
                                            (''error'', JString ''Tailscale not available'')])]\<rparr>,
            calls @ [LogPrintf (''Tailscale lookup warning: '' @ e)])"
  using assms
  by (simp add: userHandler_def writer_defs json_UserInfo_def omitempty_def
        encode_string_not_available)

text \<open>The identity endpoint answers 200 whatever happens.\<close>

lemma userHandler_status_200:
  "statusCode (fst (userHandler s newResponseWriter r)) = 200"
  by (simp add: userHandler_def writer_defs Let_def split: prod.splits option.splits list.splits)

text \<open>
  Claim C1, amended. A request whose first \<^verbatim>\<open>Tailscale-User-Login\<close> value is not empty is
  answered with status 200 and a document that has \<^verbatim>\<open>connected\<close> true, as \<^verbatim>\<open>login_name\<close> that
  value and as \<^verbatim>\<open>display_name\<close> the first value of the name header (the member is left out
  when that value is empty), each as the encoder writes a string: the value itself when it
  is valid UTF-8, and with U+FFFD in the place of every byte that is not. No lookup is sent
  and nothing is logged, and the answer is the same whatever local client the server holds.
\<close>

theorem userHandler_trusts_identity_header:
  assumes "Header_Get (Header r) ''Tailscale-User-Login'' = login"
      and "login \<noteq> []"
      and "Header_Get (Header r) ''Tailscale-User-Name'' = name"
  shows "(\<exists>doc. written (fst (userHandler s newResponseWriter r)) = [JSONLine doc]
           \<and> member doc ''connected'' = Some (JBool True)
           \<and> member doc ''login_name'' = Some (JString (coerce_utf8 login))
           \<and> member doc ''display_name''
               = (if name = [] then None else Some (JString (coerce_utf8 name)))
           \<and> member doc ''error'' = None
           \<and> (utf8_valid login \<longrightarrow> member doc ''login_name'' = Some (JString login))
           \<and> (utf8_valid name \<longrightarrow>
                 member doc ''display_name'' = (if name = [] then None else Some (JString name))))
       \<and> statusCode (fst (userHandler s newResponseWriter r)) = 200
       \<and> snd (userHandler s newResponseWriter r) = []
       \<and> (\<forall>c. userHandler (s\<lparr>client := c\<rparr>) newResponseWriter r
                = userHandler s newResponseWriter r)"
proof -
  have h: "Header_Get (Header r) ''Tailscale-User-Login'' \<noteq> []"
    using assms by simp
  note res = userHandler_resolved [OF tailscaleWhois_header [OF h]]
  have "\<exists>doc. written (fst (userHandler s newResponseWriter r)) = [JSONLine doc]
           \<and> member doc ''connected'' = Some (JBool True)
           \<and> member doc ''login_name'' = Some (JString (coerce_utf8 login))
           \<and> member doc ''display_name''
               = (if name = [] then None else Some (JString (coerce_utf8 name)))
           \<and> member doc ''error'' = None
           \<and> (utf8_valid login \<longrightarrow> member doc ''login_name'' = Some (JString login))
           \<and> (utf8_valid name \<longrightarrow>
                 member doc ''display_name'' = (if name = [] then None else Some (JString name)))"
    using assms
    by (simp add: res json_UserInfo_def omitempty_def encode_string_def member_def
          coerce_utf8_valid)
  moreover have "statusCode (fst (userHandler s newResponseWriter r)) = 200"
    by (simp add: res statusCode_def)
  moreover have "snd (userHandler s newResponseWriter r) = []"
    by (simp add: res)
  moreover have "\<forall>c. userHandler (s\<lparr>client := c\<rparr>) newResponseWriter r
                  = userHandler s newResponseWriter r"
    by (simp add: res)
  ultimately show ?thesis by blast
qed

text \<open>
  Claim C1, amended, on the server without a daemon. At the request with both headers the
  login is plain ASCII and the name holds a two-byte character: both are written as they
  are. At the request whose login header starts with the byte \<^verbatim>\<open>FF\<close>, the login name is
  written with U+FFFD in the place of that byte, and there is no \<^verbatim>\<open>display_name\<close>.
\<close>

theorem userHandler_trusts_identity_header_witness:
  "(\<exists>doc. written (fst (userHandler offline_server newResponseWriter serve_request)) = [JSONLine doc]
      \<and> member doc ''connected'' = Some (JBool True)
      \<and> member doc ''login_name'' = Some (JString ''alice@example.com'')
      \<and> member doc ''display_name''
          = Some (JString (CHR ''Z'' # CHR ''o'' # CHR 0xC3 # CHR 0xAB # '' Smith''))
      \<and> member doc ''error'' = None)
   \<and> statusCode (fst (userHandler offline_server newResponseWriter serve_request)) = 200
   \<and> snd (userHandler offline_server newResponseWriter serve_request) = []
   \<and> (\<exists>doc. written (fst (userHandler offline_server newResponseWriter bad_utf8_request))
                = [JSONLine doc]
      \<and> member doc ''connected'' = Some (JBool True)
      \<and> member doc ''login_name''
          = Some (JString (CHR 0xEF # CHR 0xBF # CHR 0xBD # ''oo@example.com''))
      \<and> member doc ''display_name'' = None
      \<and> member doc ''error'' = None)
   \<and> snd (userHandler offline_server newResponseWriter bad_utf8_request) = []"
proof -
  have login: "Header_Get (Header serve_request) ''Tailscale-User-Login'' = ''alice@example.com''"
    by (simp add: serve_request_def Header_Get_def)
  have name: "Header_Get (Header serve_request) ''Tailscale-User-Name''
                = CHR ''Z'' # CHR ''o'' # CHR 0xC3 # CHR 0xAB # '' Smith''"
    by (simp add: serve_request_def Header_Get_def)
  have v: "utf8_valid ''alice@example.com''"
          "utf8_valid (CHR ''Z'' # CHR ''o'' # CHR 0xC3 # CHR 0xAB # '' Smith'')"
    by (simp_all add: rune_len_def in_range_def)
  have login': "Header_Get (Header bad_utf8_request) ''Tailscale-User-Login''
                  = CHR 0xFF # ''oo@example.com''"
    by (simp add: bad_utf8_request_def Header_Get_def)
  have name': "Header_Get (Header bad_utf8_request) ''Tailscale-User-Name'' = []"
    by (simp add: bad_utf8_request_def Header_Get_def)
  have c: "coerce_utf8 (CHR 0xFF # ''oo@example.com'')
             = CHR 0xEF # CHR 0xBF # CHR 0xBD # ''oo@example.com''"
    by (simp add: rune_len_def in_range_def)
  have a: "(\<exists>doc. written (fst (userHandler offline_server newResponseWriter serve_request))
                  = [JSONLine doc]
      \<and> member doc ''connected'' = Some (JBool True)
      \<and> member doc ''login_name'' = Some (JString ''alice@example.com'')
      \<and> member doc ''display_name''
          = Some (JString (CHR ''Z'' # CHR ''o'' # CHR 0xC3 # CHR 0xAB # '' Smith''))
      \<and> member doc ''error'' = None)
   \<and> statusCode (fst (userHandler offline_server newResponseWriter serve_request)) = 200
   \<and> snd (userHandler offline_server newResponseWriter serve_request) = []"
    using userHandler_trusts_identity_header [OF login _ name, of offline_server] v by auto
  have b: "(\<exists>doc. written (fst (userHandler offline_server newResponseWriter bad_utf8_request))
                = [JSONLine doc]
      \<and> member doc ''connected'' = Some (JBool True)
      \<and> member doc ''login_name''
          = Some (JString (CHR 0xEF # CHR 0xBF # CHR 0xBD # ''oo@example.com''))
      \<and> member doc ''display_name'' = None
      \<and> member doc ''error'' = None)
   \<and> snd (userHandler offline_server newResponseWriter bad_utf8_request) = []"
    using userHandler_trusts_identity_header [OF login' _ name', of offline_server]
    unfolding c by auto
  show ?thesis
    using a b by blast
qed

text \<open>
  Claim C1, as stated, fails in two ways. A login header that starts with the byte \<^verbatim>\<open>FF\<close>
  is not reflected verbatim: \<^verbatim>\<open>login_name\<close> starts with U+FFFD (\<^verbatim>\<open>EF BF BD\<close>) instead. And a
  request that holds a non-empty login value after an empty first one is not taken for
  identified: the lookup is sent, and on the server without a daemon the answer has
  \<^verbatim>\<open>connected\<close> false.
\<close>

theorem userHandler_header_not_verbatim_counterexample:
  "Header_Get (Header bad_utf8_request) ''Tailscale-User-Login'' = CHR 0xFF # ''oo@example.com''
   \<and> written (fst (userHandler offline_server newResponseWriter bad_utf8_request))
     = [JSONLine (JObject [(''connected'', JBool True),
                           (''login_name'',
                              JString (CHR 0xEF # CHR 0xBF # CHR 0xBD # ''oo@example.com'')),
                           (''first_initial'', JString [CHR 0xC3, CHR 0xBF])])]
   \<and> member (JObject [(''connected'', JBool True),
                       (''login_name'',
                          JString (CHR 0xEF # CHR 0xBF # CHR 0xBD # ''oo@example.com'')),
                       (''first_initial'', JString [CHR 0xC3, CHR 0xBF])]) ''login_name''
     \<noteq> Some (JString (CHR 0xFF # ''oo@example.com''))
   \<and> Header second_value_request ''Tailscale-User-Login'' = Some [[], ''bob@example.com'']
   \<and> userHandler offline_server newResponseWriter second_value_request
     = (\<lparr>header = [''Content-Type'' \<mapsto> ''application/json''], status = Some 200,
         written = [JSONLine (JObject [(''connected'', JBool False),
                                       (''error'', JString ''Tailscale not available'')])]\<rparr>,
        [CallWhoIs ''203.0.113.7:51234'',
         LogPrintf ''Tailscale lookup warning: not accessed via Tailscale - use 'tailscale serve' or set TS_AUTHKEY to run in tsnet mode''])"
proof -
  have w: "tailscaleWhois offline_server second_value_request
             = ((None, Some ''not accessed via Tailscale - use 'tailscale serve' or set TS_AUTHKEY to run in tsnet mode''),
                [CallWhoIs ''203.0.113.7:51234''])"
    by (simp add: tailscaleWhois_def offline_server_def offline_client_def
          second_value_request_def Header_Get_def)
  have h: "Header_Get (Header bad_utf8_request) ''Tailscale-User-Login'' \<noteq> []"
    by (simp add: bad_utf8_request_def Header_Get_def)
  have "written (fst (userHandler offline_server newResponseWriter bad_utf8_request))
     = [JSONLine (JObject [(''connected'', JBool True),
                           (''login_name'',
                              JString (CHR 0xEF # CHR 0xBF # CHR 0xBD # ''oo@example.com'')),
                           (''first_initial'', JString [CHR 0xC3, CHR 0xBF])])]"
    unfolding userHandler_resolved [OF tailscaleWhois_header [OF h]]
    by (simp add: bad_utf8_request_def Header_Get_def json_UserInfo_def omitempty_def
          encode_string_def string_of_byte_def char_of_eq_iff rune_len_def in_range_def)
  then show ?thesis
    by (simp add: userHandler_failed [OF w] member_def)
       (simp add: bad_utf8_request_def second_value_request_def Header_Get_def)
qed

text \<open>
  Claim C2. Without the login header, when \<^verbatim>\<open>tailscaleWhois\<close> returns an error, whatever
  the reason, the answer has status 200 and is the document with \<^verbatim>\<open>connected\<close> false and
  the error text \<^verbatim>\<open>Tailscale not available\<close>.
\<close>

theorem userHandler_unresolved_is_200:
  assumes "Header_Get (Header r) ''Tailscale-User-Login'' = []"
      and "snd (fst (tailscaleWhois s r)) = Some e"
  shows "statusCode (fst (userHandler s newResponseWriter r)) = 200
       \<and> written (fst (userHandler s newResponseWriter r))
           = [JSONLine (JObject [(''connected'', JBool False),
                                 (''error'', JString ''Tailscale not available'')])]"
proof -
  obtain calls where "tailscaleWhois s r = ((None, Some e), calls)"
    using tailscaleWhois_error_no_data(1) [OF assms(2)] by (cases "tailscaleWhois s r") auto
  then show ?thesis
    by (simp add: userHandler_failed statusCode_def)
qed

text \<open>Claim C2 at the direct request, on the server without a daemon.\<close>

theorem userHandler_unresolved_is_200_witness:
  "statusCode (fst (userHandler offline_server newResponseWriter direct_request)) = 200
   \<and> written (fst (userHandler offline_server newResponseWriter direct_request))
       = [JSONLine (JObject [(''connected'', JBool False),
                             (''error'', JString ''Tailscale not available'')])]"
proof -
  have h: "Header_Get (Header direct_request) ''Tailscale-User-Login'' = []"
    by (simp add: direct_request_def Header_Get_def)
  have f: "snd (fst (tailscaleWhois offline_server direct_request))
             = Some ''not accessed via Tailscale - use 'tailscale serve' or set TS_AUTHKEY to run in tsnet mode''"
    by (simp add: tailscaleWhois_def offline_server_def offline_client_def direct_request_def Header_Get_def)
  show ?thesis
    using userHandler_unresolved_is_200 [OF h f] .
qed

text \<open>The reasons for which the resolution fails when the login header is missing.\<close>

lemma tailscaleWhois_fails_iff:
  assumes "Header_Get (Header r) ''Tailscale-User-Login'' = []"
  shows "snd (fst (tailscaleWhois s r)) \<noteq> None \<longleftrightarrow>
           (case WhoIs (client s) (RemoteAddr r) of
              Inl err \<Rightarrow> True
            | Inr whois \<Rightarrow>
                IsTagged (Node whois)
                \<or> (case UserProfile whois of None \<Rightarrow> True | Some p \<Rightarrow> UserProfile.LoginName p = []))"
  using assms
  by (simp add: tailscaleWhois_def split: sum.splits option.splits)

text \<open>
  The login header alone decides. With a non-empty first login value and an empty name
  header the answer has status 200, \<^verbatim>\<open>connected\<close> true, the login name, no \<^verbatim>\<open>display_name\<close>
  member, and as \<^verbatim>\<open>first_initial\<close> the conversion \<^verbatim>\<open>string(LoginName[0])\<close> of the login name's
  first byte: that byte when it is below 0x80, else the two bytes that encode the code
  point of the byte's number. No lookup is sent.
\<close>

lemma userHandler_login_header_alone:
  assumes "Header_Get (Header r) ''Tailscale-User-Login'' = c # cs"
      and "Header_Get (Header r) ''Tailscale-User-Name'' = []"
  shows "statusCode (fst (userHandler s newResponseWriter r)) = 200
       \<and> written (fst (userHandler s newResponseWriter r))
           = [JSONLine (JObject [(''connected'', JBool True),
                                 (''login_name'', JString (coerce_utf8 (c # cs))),
                                 (''first_initial'',
                                    JString (if (of_char c :: nat) < 128 then [c]
                                             else [char_of (192 + (of_char c :: nat) div 64),
                                                   char_of (128 + (of_char c :: nat) mod 64)]))])]
       \<and> snd (userHandler s newResponseWriter r) = []"
proof -
  have h: "Header_Get (Header r) ''Tailscale-User-Login'' \<noteq> []"
    using assms by simp
  note res = userHandler_resolved [OF tailscaleWhois_header [OF h]]
  have n: "string_of_byte c \<noteq> []"
    by (simp add: string_of_byte_def Let_def)
  have e: "coerce_utf8 (string_of_byte c)
             = (if (of_char c :: nat) < 128 then [c]
                else [char_of (192 + (of_char c :: nat) div 64),
                      char_of (128 + (of_char c :: nat) mod 64)])"
    unfolding coerce_utf8_string_of_byte by (simp add: string_of_byte_def Let_def)
  show ?thesis
    using assms n
    by (simp add: res json_UserInfo_def omitempty_def encode_string_def statusCode_def e
          del: coerce_utf8.simps)
qed

text \<open>
  Claim C10 at a login name that starts with a two-byte character. The request carries
  the login header only, its value the bytes \<^verbatim>\<open>C3 A9\<close> followed by \<^verbatim>\<open>mile@example.com\<close>. The
  answer has status 200, \<^verbatim>\<open>connected\<close> true and no \<^verbatim>\<open>display_name\<close>, and no lookup is sent;
  but \<^verbatim>\<open>first_initial\<close> is \<^verbatim>\<open>C3 83\<close>, the encoding of the code point numbered by the first
  byte, while the login name starts with the character \<^verbatim>\<open>C3 A9\<close>.
\<close>

theorem userHandler_first_initial_of_login_header:
  "Header_Get (Header accent_login_request) ''Tailscale-User-Login''
     = CHR 0xC3 # CHR 0xA9 # ''mile@example.com''
   \<and> Header_Get (Header accent_login_request) ''Tailscale-User-Name'' = []
   \<and> statusCode (fst (userHandler offline_server newResponseWriter accent_login_request)) = 200
   \<and> written (fst (userHandler offline_server newResponseWriter accent_login_request))
     = [JSONLine (JObject [(''connected'', JBool True),
                           (''login_name'', JString (CHR 0xC3 # CHR 0xA9 # ''mile@example.com'')),
                           (''first_initial'', JString [CHR 0xC3, CHR 0x83])])]
   \<and> snd (userHandler offline_server newResponseWriter accent_login_request) = []
   \<and> first_char (CHR 0xC3 # CHR 0xA9 # ''mile@example.com'') = [CHR 0xC3, CHR 0xA9]"
  by (simp add: userHandler_def tailscaleWhois_def offline_server_def accent_login_request_def
        Header_Get_def writer_defs json_UserInfo_def omitempty_def encode_string_def
        string_of_byte_def first_char_def char_of_eq_iff rune_len_def in_range_def)

text \<open>
  When the lookup itself errors, \<^verbatim>\<open>tailscaleWhois\<close> fails with a reason that differs between
  the modes: in tsnet mode the lookup's error behind \<^verbatim>\<open>failed to identify user via tsnet:\<close>,
  in regular mode a fixed hint to use Tailscale. The reason goes to the log line only. The
  response is the same in both modes: \<^verbatim>\<open>connected\<close> false and the error text
  \<^verbatim>\<open>Tailscale not available\<close>.
\<close>

lemma tailscaleWhois_reason_by_mode:
  assumes "Header_Get (Header r) ''Tailscale-User-Login'' = []"
      and "WhoIs (client s) (RemoteAddr r) = Inl err"
  shows "snd (fst (tailscaleWhois (s\<lparr>tsnetMode := True\<rparr>) r))
           = Some (''failed to identify user via tsnet: '' @ err)
       \<and> snd (fst (tailscaleWhois (s\<lparr>tsnetMode := False\<rparr>) r))
           = Some ''not accessed via Tailscale - use 'tailscale serve' or set TS_AUTHKEY to run in tsnet mode''
       \<and> snd (fst (tailscaleWhois (s\<lparr>tsnetMode := True\<rparr>) r))
           \<noteq> snd (fst (tailscaleWhois (s\<lparr>tsnetMode := False\<rparr>) r))
       \<and> snd (userHandler (s\<lparr>tsnetMode := True\<rparr>) newResponseWriter r)
           = [CallWhoIs (RemoteAddr r),
              LogPrintf (''Tailscale lookup warning: failed to identify user via tsnet: '' @ err)]
       \<and> snd (userHandler (s\<lparr>tsnetMode := False\<rparr>) newResponseWriter r)
           = [CallWhoIs (RemoteAddr r),
              LogPrintf ''Tailscale lookup warning: not accessed via Tailscale - use 'tailscale serve' or set TS_AUTHKEY to run in tsnet mode'']
       \<and> fst (userHandler (s\<lparr>tsnetMode := True\<rparr>) newResponseWriter r)
           = fst (userHandler (s\<lparr>tsnetMode := False\<rparr>) newResponseWriter r)
       \<and> written (fst (userHandler s newResponseWriter r))
           = [JSONLine (JObject [(''connected'', JBool False),
                                 (''error'', JString ''Tailscale not available'')])]"
proof -
  have t: "tailscaleWhois (s\<lparr>tsnetMode := True\<rparr>) r
             = ((None, Some (''failed to identify user via tsnet: '' @ err)),
                [CallWhoIs (RemoteAddr r)])"
    using assms by (simp add: tailscaleWhois_def)
  have f: "tailscaleWhois (s\<lparr>tsnetMode := False\<rparr>) r
             = ((None, Some ''not accessed via Tailscale - use 'tailscale serve' or set TS_AUTHKEY to run in tsnet mode''),
                [CallWhoIs (RemoteAddr r)])"
    using assms by (simp add: tailscaleWhois_def)
  have s: "\<exists>e. tailscaleWhois s r = ((None, Some e), [CallWhoIs (RemoteAddr r)])"
    using assms by (simp add: tailscaleWhois_def)
  then obtain e where s': "tailscaleWhois s r = ((None, Some e), [CallWhoIs (RemoteAddr r)])"
    by blast
  show ?thesis
    by (simp add: t f userHandler_failed [OF t] userHandler_failed [OF f] userHandler_failed [OF s'])
qed

text \<open>
  Claim C8 on the server without a daemon and a direct request. The reason
  \<^verbatim>\<open>tailscaleWhois\<close> returns in tsnet mode differs from the one in regular mode, but
  \<^verbatim>\<open>userHandler\<close> writes the same response in both modes, \<^verbatim>\<open>connected\<close> false with the error
  text \<^verbatim>\<open>Tailscale not available\<close>: the caller cannot tell the modes apart.
\<close>

theorem userHandler_same_answer_in_both_modes:
  "snd (fst (tailscaleWhois (offline_server\<lparr>tsnetMode := True\<rparr>) direct_request))
     = Some ''failed to identify user via tsnet: Failed to connect to local Tailscale daemon''
   \<and> snd (fst (tailscaleWhois (offline_server\<lparr>tsnetMode := False\<rparr>) direct_request))
     = Some ''not accessed via Tailscale - use 'tailscale serve' or set TS_AUTHKEY to run in tsnet mode''
   \<and> fst (userHandler (offline_server\<lparr>tsnetMode := True\<rparr>) newResponseWriter direct_request)
     = fst (userHandler (offline_server\<lparr>tsnetMode := False\<rparr>) newResponseWriter direct_request)
   \<and> written (fst (userHandler (offline_server\<lparr>tsnetMode := True\<rparr>) newResponseWriter
                     direct_request))
     = [JSONLine (JObject [(''connected'', JBool False),
                           (''error'', JString ''Tailscale not available'')])]"
  by (simp add: userHandler_def tailscaleWhois_def offline_server_def offline_client_def
        direct_request_def Header_Get_def writer_defs json_UserInfo_def omitempty_def
        encode_string_not_available)

text \<open>
  For a first byte below 0x80 the conversion \<^verbatim>\<open>string(s[0])\<close> is the first character.
\<close>

lemma string_of_byte_ascii:
  assumes "(of_char c :: nat) < 128"
  shows "string_of_byte c = first_char (c # cs)"
  using assms by (simp add: string_of_byte_def first_char_def)

text \<open>
  Claim C9 at a display name that starts with a two-byte character. The lookup resolves
  the user whose display name is the bytes \<^verbatim>\<open>C3 89\<close> followed by \<^verbatim>\<open>mile\<close>; its first
  character is \<^verbatim>\<open>C3 89\<close>, but \<^verbatim>\<open>first_initial\<close> is \<^verbatim>\<open>C3 83\<close>, the encoding of the code
  point numbered by the first byte.
\<close>

theorem userHandler_first_initial_two_byte_character:
  "written (fst (userHandler tsnet_server newResponseWriter direct_request))
     = [JSONLine (JObject [(''connected'', JBool True),
                           (''login_name'', JString ''emile@example.com''),
                           (''display_name'', JString (CHR 0xC3 # CHR 0x89 # ''mile'')),
                           (''first_initial'', JString [CHR 0xC3, CHR 0x83])])]
   \<and> first_char (CHR 0xC3 # CHR 0x89 # ''mile'') = [CHR 0xC3, CHR 0x89]"
  by (simp add: userHandler_def tailscaleWhois_def tsnet_server_def direct_request_def
        Header_Get_def IsTagged_def writer_defs json_UserInfo_def omitempty_def encode_string_def
        string_of_byte_def first_char_def char_of_eq_iff rune_len_def in_range_def)

subsection \<open>The health check\<close>

text \<open>
  Claim C3, amended. Whatever the database and the local client answer, \<^verbatim>\<open>/health\<close> is
  answered with status 200 and the document whose \<^verbatim>\<open>database\<close> member is \<^verbatim>\<open>connected\<close>
  exactly when the ping succeeds (else \<^verbatim>\<open>disconnected\<close>) and whose \<^verbatim>\<open>tailscale\<close> member is
  \<^verbatim>\<open>connected\<close> for the backend state \<^verbatim>\<open>Running\<close>, else the backend state as the encoder
  writes it (the state itself when it is valid UTF-8), or \<^verbatim>\<open>unknown\<close> when the status call
  fails or returns no status; each member depends on its own dependency only. The member is
  named \<^verbatim>\<open>tailscale\<close>, not \<^verbatim>\<open>network\<close>.
\<close>

theorem healthHandler_reports_each_dependency:
  "statusCode (healthHandler s newResponseWriter r) = 200
   \<and> header (healthHandler s newResponseWriter r) ''Content-Type'' = Some ''application/json''
   \<and> written (healthHandler s newResponseWriter r)
       = [JSONLine (JObject
            [(''status'', JString ''ok''),
             (''database'',
                JString (if PingContext (db s) = None then ''connected'' else ''disconnected'')),
             (''tailscale'',
                JString (case LocalClient.Status (client s) of
                           (Some st, None) \<Rightarrow>
                             if BackendState st = ''Running'' then ''connected''
                             else coerce_utf8 (BackendState st)
                         | _ \<Rightarrow> ''unknown''))])]
   \<and> (\<forall>st. LocalClient.Status (client s) = (Some st, None) \<and> utf8_valid (BackendState st)
         \<longrightarrow> coerce_utf8 (BackendState st) = BackendState st)"
proof -
  have e: "encode_string ''ok'' = JString ''ok''"
          "encode_string ''connected'' = JString ''connected''"
          "encode_string ''disconnected'' = JString ''disconnected''"
          "encode_string ''unknown'' = JString ''unknown''"
    by (simp_all add: encode_string_def rune_len_def in_range_def)
  have "statusCode (healthHandler s newResponseWriter r) = 200
   \<and> header (healthHandler s newResponseWriter r) ''Content-Type'' = Some ''application/json''
   \<and> written (healthHandler s newResponseWriter r)
       = [JSONLine (JObject
            [(''status'', JString ''ok''),
             (''database'',
                JString (if PingContext (db s) = None then ''connected'' else ''disconnected'')),
             (''tailscale'',
                JString (case LocalClient.Status (client s) of
                           (Some st, None) \<Rightarrow>
                             if BackendState st = ''Running'' then ''connected''
                             else coerce_utf8 (BackendState st)
                         | _ \<Rightarrow> ''unknown''))])]"
    by (cases "LocalClient.Status (client s)"; cases "PingContext (db s)")
       (simp_all add: healthHandler_def writer_defs json_HealthResponse_def Let_def e
          split: option.splits, simp_all add: encode_string_def)
  then show ?thesis
    by (simp add: coerce_utf8_valid)
qed

text \<open>
  Claim C3, amended, on the server whose database is down and whose daemon answers with
  the backend state \<^verbatim>\<open>Stopped\<close>, and on the server whose database is up and whose daemon
  answers with a state that is the single byte \<^verbatim>\<open>FF\<close>, written as U+FFFD.
\<close>

theorem healthHandler_reports_each_dependency_witness:
  "statusCode (healthHandler (offline_server\<lparr>client := stopped_client\<rparr>) newResponseWriter
                 direct_request) = 200
   \<and> written (healthHandler (offline_server\<lparr>client := stopped_client\<rparr>) newResponseWriter
                direct_request)
       = [JSONLine (JObject [(''status'', JString ''ok''),
                             (''database'', JString ''disconnected''),
                             (''tailscale'', JString ''Stopped'')])]
   \<and> written (healthHandler
                (empty_table_server
                   \<lparr>client := stopped_client
                      \<lparr>LocalClient.Status := (Some \<lparr>BackendState = [CHR 0xFF]\<rparr>, None)\<rparr>\<rparr>)
                newResponseWriter direct_request)
       = [JSONLine (JObject [(''status'', JString ''ok''),
                             (''database'', JString ''connected''),
                             (''tailscale'', JString [CHR 0xEF, CHR 0xBF, CHR 0xBD])])]"
proof -
  have v: "utf8_valid ''Stopped''"
    by (simp add: rune_len_def in_range_def)
  have a: "statusCode (healthHandler (offline_server\<lparr>client := stopped_client\<rparr>)
                         newResponseWriter direct_request) = 200
   \<and> written (healthHandler (offline_server\<lparr>client := stopped_client\<rparr>) newResponseWriter
                direct_request)
       = [JSONLine (JObject [(''status'', JString ''ok''),
                             (''database'', JString ''disconnected''),
                             (''tailscale'', JString ''Stopped'')])]"
    using healthHandler_reports_each_dependency
            [of "offline_server\<lparr>client := stopped_client\<rparr>" direct_request] v
    by (simp add: offline_server_def stopped_client_def)
  have b: "written (healthHandler
                (empty_table_server
                   \<lparr>client := stopped_client
                      \<lparr>LocalClient.Status := (Some \<lparr>BackendState = [CHR 0xFF]\<rparr>, None)\<rparr>\<rparr>)
                newResponseWriter direct_request)
       = [JSONLine (JObject [(''status'', JString ''ok''),
                             (''database'', JString ''connected''),
                             (''tailscale'', JString [CHR 0xEF, CHR 0xBF, CHR 0xBD])])]"
    using healthHandler_reports_each_dependency
            [of "empty_table_server
                   \<lparr>client := stopped_client
                      \<lparr>LocalClient.Status := (Some \<lparr>BackendState = [CHR 0xFF]\<rparr>, None)\<rparr>\<rparr>"
                direct_request]
    by (simp add: empty_table_server_def stopped_client_def rune_len_def in_range_def)
  show ?thesis
    using a b by blast
qed

text \<open>
  Claim C3, as stated, fails. With the database down and no daemon the document is
  \<^verbatim>\<open>{"status":"ok","database":"disconnected","tailscale":"unknown"}\<close>, which is not the
  document with a \<^verbatim>\<open>network\<close> member the claim gives.
\<close>

theorem healthHandler_member_network_counterexample:
  "written (healthHandler offline_server newResponseWriter direct_request)
     = [JSONLine (JObject [(''status'', JString ''ok''),
                           (''database'', JString ''disconnected''),
                           (''tailscale'', JString ''unknown'')])]
   \<and> written (healthHandler offline_server newResponseWriter direct_request)
     \<noteq> [JSONLine (JObject [(''status'', JString ''ok''),
                           (''database'', JString ''disconnected''),
                           (''network'', JString ''unknown'')])]"
  by (simp add: healthHandler_def offline_server_def offline_client_def writer_defs
        json_HealthResponse_def encode_string_def rune_len_def in_range_def)

subsection \<open>The products listing\<close>

text \<open>
  The inner loop stores, for each column in turn, the coerced value under the column name.
\<close>

lemma productsHandler_row_updates:
  "productsHandler_row columns values =
     fold (\<lambda>(col, val). Mapping.update col
             (case val of VBytes b \<Rightarrow> VString b
                        | VTime t \<Rightarrow> VString (Format_RFC3339 t)
                        | _ \<Rightarrow> val))
          (zip columns values) Mapping.empty"
  unfolding productsHandler_row_def
  by (rule fold_cong) (auto simp add: fun_eq_iff split: Value.splits)


lemma fold_update_keys:
  "Mapping.keys (fold (\<lambda>(k, v). Mapping.update k (g v)) xs m) = Mapping.keys m \<union> fst ` set xs"
proof (induction xs arbitrary: m)
  case Nil
  then show ?case by simp
next
  case (Cons x xs)
  obtain a b where x: "x = (a, b)" by (cases x)
  show ?case
    by (auto simp add: x Cons.IH)
qed

lemma productsHandler_row_keys:
  assumes "length values = length columns"
  shows "Mapping.keys (productsHandler_row columns values) = set columns"
proof -
  have "fst ` set (zip columns values) = set columns"
    using assms by (metis map_fst_zip set_map)
  then show ?thesis
    by (simp add: productsHandler_row_updates fold_update_keys)
qed





lemma those_map_keys:
  "those (map (\<lambda>k. Option.bind (f k) (\<lambda>v. map_option (Pair (h k)) (g v))) ks) = Some kvs
     \<Longrightarrow> map fst kvs = map h ks"
proof (induction ks arbitrary: kvs)
  case Nil
  then show ?case by simp
next
  case (Cons k ks)
  then show ?case
    by (auto split: option.splits Option.bind_splits)
qed

lemma encode_map_member_order:
  assumes "encode_map m = Some (JObject members)"
  shows "map fst members = map coerce_utf8 (Mapping.ordered_keys m)"
  using assms by (auto simp add: encode_map_def dest: those_map_keys)

lemma productsHandler_loop_Inr:
  assumes "productsHandler_loop columns rows acc = Inr products"
  shows "\<exists>vss. rows = map Inr vss
             \<and> (\<forall>vs \<in> set vss. length vs = length columns)
             \<and> products = (if vss = [] then acc
                            else Some (elems acc @ map (productsHandler_row columns) vss))"
  using assms
proof (induction rows arbitrary: acc)
  case Nil
  then show ?case by simp
next
  case (Cons row rows)
  from Cons.prems obtain vs where row: "row = Inr vs" and len: "length vs = length columns"
    and rest: "productsHandler_loop columns rows
                 (append_slice acc (productsHandler_row columns vs)) = Inr products"
    by (auto simp add: Scan_def split: sum.splits if_splits)
  from Cons.IH [OF rest] obtain vss where vss: "rows = map Inr vss"
    "\<forall>vs \<in> set vss. length vs = length columns"
    "products = (if vss = [] then append_slice acc (productsHandler_row columns vs)
                 else Some (elems (append_slice acc (productsHandler_row columns vs))
                            @ map (productsHandler_row columns) vss))"
    by blast
  have "row # rows = map Inr (vs # vss)"
    using row vss(1) by simp
  moreover have "\<forall>u \<in> set (vs # vss). length u = length columns"
    using len vss(2) by simp
  moreover have "products = Some (elems acc @ map (productsHandler_row columns) (vs # vss))"
    using vss(3) by (simp add: append_slice_def elems_def split: option.splits)
  ultimately show ?case
    by (metis list.distinct(1))
qed

text \<open>
  Claim C6, amended. When no scan fails the loop yields one product per row. The keys of
  each product are exactly the column names; a Go map keeps no insertion order, and the
  JSON object of a product lists its members in ascending byte order of the names,
  whatever the order of the columns. Each name is written as the encoder writes a string,
  which is the name itself when it is valid UTF-8.
\<close>

theorem productsHandler_loop_one_map_per_row:
  assumes "productsHandler_loop columns rows None = Inr products"
  shows "length (elems products) = length rows
       \<and> (\<forall>m \<in> set (elems products).
            Mapping.keys m = set columns
            \<and> (\<forall>members. encode_map m = Some (JObject members)
                 \<longrightarrow> map fst members = map coerce_utf8 (sort (remdups columns))
                     \<and> (list_all utf8_valid columns
                          \<longrightarrow> map fst members = sort (remdups columns))))"
proof -
  from productsHandler_loop_Inr [OF assms] obtain vss where vss: "rows = map Inr vss"
    "\<forall>vs \<in> set vss. length vs = length columns"
    "products = (if vss = [] then None
                 else Some (elems None @ map (productsHandler_row columns) vss))"
    by blast
  have e: "elems products = map (productsHandler_row columns) vss"
    using vss(3) by (simp add: elems_def)
  have "length (elems products) = length rows"
    using vss(1) by (simp add: e)
  moreover have "Mapping.keys m = set columns
            \<and> (\<forall>members. encode_map m = Some (JObject members)
                 \<longrightarrow> map fst members = map coerce_utf8 (sort (remdups columns))
                     \<and> (list_all utf8_valid columns
                          \<longrightarrow> map fst members = sort (remdups columns)))"
    if "m \<in> set (elems products)" for m
  proof -
    from that obtain vs where vs: "vs \<in> set vss" "m = productsHandler_row columns vs"
      by (auto simp add: e)
    have k: "Mapping.keys m = set columns"
      using vs vss(2) by (simp add: productsHandler_row_keys)
    then have o: "Mapping.ordered_keys m = sort (remdups columns)"
      by (simp add: ordered_keys_def sorted_list_of_set_sort_remdups)
    have v: "map coerce_utf8 (sort (remdups columns)) = sort (remdups columns)"
      if "list_all utf8_valid columns"
      using that by (intro map_idI) (simp add: list_all_iff coerce_utf8_valid)
    show ?thesis
      using k o v by (auto dest: encode_map_member_order)
  qed
  ultimately show ?thesis by blast
qed

text \<open>
  Claim C6, amended, on two rows under the columns \<^verbatim>\<open>name\<close>, \<^verbatim>\<open>id\<close>.
\<close>

theorem productsHandler_loop_one_map_per_row_witness:
  "productsHandler_loop [''name'', ''id'']
     [Inr [VString ''Homelab'', VInt 5], Inr [VString ''Edge'', VInt 6]] None
     = Inr (Some [productsHandler_row [''name'', ''id''] [VString ''Homelab'', VInt 5],
                  productsHandler_row [''name'', ''id''] [VString ''Edge'', VInt 6]])
   \<and> length (elems (Some [productsHandler_row [''name'', ''id''] [VString ''Homelab'', VInt 5],
                           productsHandler_row [''name'', ''id''] [VString ''Edge'', VInt 6]]))
     = 2
   \<and> Mapping.keys (productsHandler_row [''name'', ''id''] [VString ''Homelab'', VInt 5])
     = {''name'', ''id''}
   \<and> encode_map (productsHandler_row [''name'', ''id''] [VString ''Homelab'', VInt 5])
     = Some (JObject [(''id'', JInt 5), (''name'', JString ''Homelab'')])
   \<and> map fst [(''id'', JInt 5), (''name'', JString ''Homelab'')] = sort (remdups [''name'', ''id''])"
proof -
  let ?columns = "[''name'', ''id'']"
  let ?m1 = "productsHandler_row ?columns [VString ''Homelab'', VInt 5]"
  let ?m2 = "productsHandler_row ?columns [VString ''Edge'', VInt 6]"
  have loop: "productsHandler_loop ?columns
                [Inr [VString ''Homelab'', VInt 5], Inr [VString ''Edge'', VInt 6]] None
              = Inr (Some [?m1, ?m2])"
    by (simp add: Scan_def append_slice_def)
  have enc: "encode_map ?m1 = Some (JObject [(''id'', JInt 5), (''name'', JString ''Homelab'')])"
    by (simp add: productsHandler_row_def encode_map_def encode_value_def lookup_update'
          encode_string_def rune_len_def in_range_def)
  have m1: "?m1 \<in> set (elems (Some [?m1, ?m2]))"
    by (simp add: elems_def)
  have v: "list_all utf8_valid ?columns"
    by (simp add: rune_len_def in_range_def)
  show ?thesis
    using productsHandler_loop_one_map_per_row [OF loop] loop enc m1 v
    by (auto simp add: elems_def)
qed

lemmas eval_products =
  productsHandler_def Scan_def productsHandler_row_def append_slice_def
  encode_products_def encode_map_def encode_value_def lookup_update' writer_defs
  encode_string_def rune_len_def in_range_def

text \<open>
  Claim C6, as stated, fails. For the columns \<^verbatim>\<open>name\<close>, \<^verbatim>\<open>id\<close> the document lists \<^verbatim>\<open>id\<close>
  before \<^verbatim>\<open>name\<close>, and the product is the same map as the one built from the columns in the
  other order.
\<close>

theorem productsHandler_member_order_counterexample:
  "written (productsHandler name_first_server newResponseWriter direct_request)
     = [JSONLine (JArray [JObject [(''id'', JInt 5), (''name'', JString ''Homelab'')]])]
   \<and> productsHandler_row [''name'', ''id''] [VString ''Homelab'', VInt 5]
     = productsHandler_row [''id'', ''name''] [VInt 5, VString ''Homelab'']"
proof -
  have "written (productsHandler name_first_server newResponseWriter direct_request)
     = [JSONLine (JArray [JObject [(''id'', JInt 5), (''name'', JString ''Homelab'')]])]"
    by (simp add: name_first_server_def eval_products)
  moreover have "productsHandler_row [''name'', ''id''] [VString ''Homelab'', VInt 5]
     = productsHandler_row [''id'', ''name''] [VInt 5, VString ''Homelab'']"
    by (rule mapping_eqI) (auto simp add: productsHandler_row_def lookup_update')
  ultimately show ?thesis by simp
qed

text \<open>
  The four failures: each is answered with status 500 and one line of text, the template
  around the failed step and the error's text; no row is written.
\<close>

lemma productsHandler_error_replies:
  \<open>QueryContext (db s) query = Inl err \<Longrightarrow>
     statusCode (productsHandler s newResponseWriter r) = 500
     \<and> written (productsHandler s newResponseWriter r)
         = [TextLine (''{"error": "Failed to query database: '' @ err @ ''"}'')]\<close>
  \<open>QueryContext (db s) query = Inr rows \<Longrightarrow> Columns rows = Inl err \<Longrightarrow>
     statusCode (productsHandler s newResponseWriter r) = 500
     \<and> written (productsHandler s newResponseWriter r)
         = [TextLine (''{"error": "Failed to get columns: '' @ err @ ''"}'')]\<close>
  \<open>QueryContext (db s) query = Inr rows \<Longrightarrow> Columns rows = Inr columns \<Longrightarrow>
     productsHandler_loop columns (Next rows) None = Inl err \<Longrightarrow>
     statusCode (productsHandler s newResponseWriter r) = 500
     \<and> written (productsHandler s newResponseWriter r)
         = [TextLine (''{"error": "Failed to scan row: '' @ err @ ''"}'')]\<close>
  \<open>QueryContext (db s) query = Inr rows \<Longrightarrow> Columns rows = Inr columns \<Longrightarrow>
     productsHandler_loop columns (Next rows) None = Inr products \<Longrightarrow> Err rows = Some err \<Longrightarrow>
     statusCode (productsHandler s newResponseWriter r) = 500
     \<and> written (productsHandler s newResponseWriter r)
         = [TextLine (''{"error": "Error iterating rows: '' @ err @ ''"}'')]\<close>
  by (simp_all add: productsHandler_def writer_defs)

text \<open>
  Without a failure the answer has status 200 and is the encoding of the products of all
  rows, in the cursor's order, or nothing at all when the encoder refuses a value.
\<close>

lemma productsHandler_all_rows:
  assumes "QueryContext (db s) query = Inr rows"
      and "Columns rows = Inr columns"
      and "Next rows = map Inr vss"
      and "\<forall>vs \<in> set vss. length vs = length columns"
      and "Err rows = None"
  shows "statusCode (productsHandler s newResponseWriter r) = 200"
    and "written (productsHandler s newResponseWriter r) =
           (case encode_products (if vss = [] then None
                                  else Some (map (productsHandler_row columns) vss)) of
              None \<Rightarrow> []
            | Some doc \<Rightarrow> [JSONLine doc])"
proof -
  have loop: "productsHandler_loop columns (map Inr vss) acc =
           Inr (if vss = [] then acc else Some (elems acc @ map (productsHandler_row columns) vss))"
    if "\<forall>vs \<in> set vss. length vs = length columns" for acc
    using that
  proof (induction vss arbitrary: acc)
    case Nil
    then show ?case by simp
  next
    case (Cons vs vss)
    then show ?case
      by (simp add: Scan_def append_slice_def elems_def split: option.splits)
  qed
  have l: "productsHandler_loop columns (Next rows) None =
             Inr (if vss = [] then None else Some (map (productsHandler_row columns) vss))"
    using loop [OF assms(4), of None] assms(3) by (simp add: elems_def)
  show "statusCode (productsHandler s newResponseWriter r) = 200"
    using assms(1,2,5) l
    by (simp add: productsHandler_def Encode_first_write Header_Set_def newResponseWriter_def)
  show "written (productsHandler s newResponseWriter r) =
           (case encode_products (if vss = [] then None
                                  else Some (map (productsHandler_row columns) vss)) of
              None \<Rightarrow> []
            | Some doc \<Rightarrow> [JSONLine doc])"
    using assms(1,2,5) l
    by (simp add: productsHandler_def Encode_first_write Header_Set_def newResponseWriter_def)
qed

text \<open>
  The loop fails with the error of the first row whose scan fails.
\<close>

lemma productsHandler_loop_Inl:
  assumes "productsHandler_loop columns rows acc = Inl err"
  shows "\<exists>i < length rows. Scan columns (rows ! i) = Inl err
           \<and> (\<forall>j < i. \<exists>vs. Scan columns (rows ! j) = Inr vs)"
  using assms
proof (induction rows arbitrary: acc)
  case Nil
  then show ?case by simp
next
  case (Cons row rows)
  show ?case
  proof (cases "Scan columns row")
    case (Inl e)
    then have "e = err" using Cons.prems by simp
    then have "Scan columns ((row # rows) ! 0) = Inl err
           \<and> (\<forall>j < 0. \<exists>vs. Scan columns ((row # rows) ! j) = Inr vs)"
      using Inl by simp
    then show ?thesis by blast
  next
    case (Inr vs)
    then have "productsHandler_loop columns rows
                 (append_slice acc (productsHandler_row columns vs)) = Inl err"
      using Cons.prems by simp
    from Cons.IH [OF this] obtain i where i: "i < length rows"
      "Scan columns (rows ! i) = Inl err"
      "\<forall>j < i. \<exists>vs. Scan columns (rows ! j) = Inr vs"
      by blast
    have "\<forall>j < Suc i. \<exists>vs. Scan columns ((row # rows) ! j) = Inr vs"
      using i(3) Inr by (auto simp add: less_Suc_eq_0_disj)
    then have "Suc i < length (row # rows) \<and> Scan columns ((row # rows) ! Suc i) = Inl err
           \<and> (\<forall>j < Suc i. \<exists>vs. Scan columns ((row # rows) ! j) = Inr vs)"
      using i(1,2) by simp
    then show ?thesis by blast
  qed
qed

text \<open>
  How a stored value is encoded: the coercion of a byte slice or of a time is a JSON
  string, the bytes as the encoder writes a string.
\<close>

lemma productsHandler_stored_as_json:
  "encode_value (case v of VBytes b \<Rightarrow> VString b
                         | VTime t \<Rightarrow> VString (Format_RFC3339 t)
                         | _ \<Rightarrow> v) =
     (case v of
        VBytes b \<Rightarrow> Some (JString (coerce_utf8 b))
      | VTime t \<Rightarrow> Some (JString (coerce_utf8 (Format_RFC3339 t)))
      | _ \<Rightarrow> encode_value v)"
  by (simp add: encode_value_def encode_string_def split: Value.splits)

text \<open>
  Claim C4, amended. When the query succeeds and yields no row, the products slice is
  still nil when it is encoded: the answer has status 200 and the body \<^verbatim>\<open>null\<close>.
\<close>

theorem productsHandler_empty_table:
  assumes "QueryContext (db s) query = Inr rows"
      and "Columns rows = Inr columns"
      and "Next rows = []"
      and "Err rows = None"
  shows "statusCode (productsHandler s newResponseWriter r) = 200
       \<and> written (productsHandler s newResponseWriter r) = [JSONLine JNull]"
  using assms by (simp add: eval_products)

text \<open>
  Claim C4, amended, on the server whose products table is empty.
\<close>

theorem productsHandler_empty_table_witness:
  "statusCode (productsHandler empty_table_server newResponseWriter direct_request) = 200
   \<and> written (productsHandler empty_table_server newResponseWriter direct_request)
       = [JSONLine JNull]"
  using productsHandler_empty_table
          [of empty_table_server
              "\<lparr>Columns = Inr [''id'', ''name'', ''description'', ''price'', ''stock_quantity'',
                                  ''category'', ''created_at'', ''updated_at''],
                 Next = [], Err = None\<rparr>"
              "[''id'', ''name'', ''description'', ''price'', ''stock_quantity'', ''category'',
                ''created_at'', ''updated_at'']"
              direct_request]
  by (simp add: empty_table_server_def)

text \<open>
  Claim C4, as stated, fails: on the empty table the body is \<^verbatim>\<open>null\<close>, not \<^verbatim>\<open>[]\<close>.
\<close>

theorem productsHandler_empty_table_counterexample:
  "written (productsHandler empty_table_server newResponseWriter direct_request)
     = [JSONLine JNull]
   \<and> written (productsHandler empty_table_server newResponseWriter direct_request)
     \<noteq> [JSONLine (JArray [])]"
  by (simp add: empty_table_server_def eval_products)

text \<open>
  Claim C7 at a query error whose message holds double quotes. The reply has status 500
  and content type \<^verbatim>\<open>text/plain\<close>; the message is put between the quotes of the template
  as it is, so the body is not a JSON object with an \<^verbatim>\<open>error\<close> string (the reader
  rejects it), while for a message without quotes it is one.
\<close>

theorem productsHandler_error_reply_not_json:
  \<open>statusCode (productsHandler missing_table_server newResponseWriter direct_request) = 500
   \<and> header (productsHandler missing_table_server newResponseWriter direct_request)
       ''Content-Type'' = Some ''text/plain; charset=utf-8''
   \<and> written (productsHandler missing_table_server newResponseWriter direct_request)
       = [TextLine ''{"error": "Failed to query database: pq: relation "products" does not exist"}'']
   \<and> json_error_object
         (''{"error": "Failed to query database: pq: relation "products" does not exist"}''
          @ [CHR 0x0A]) = None
   \<and> json_error_object (''{"error": "Failed to query database: context deadline exceeded"}''
          @ [CHR 0x0A]) = Some ''Failed to query database: context deadline exceeded''\<close>
  by (simp add: missing_table_server_def eval_products json_error_object_def json_string_def
        expect_def)

text \<open>
  When the encoder refuses a value (a NaN here) the handler has written nothing and
  ignores the encoder's error: status 200 and an empty body.
\<close>

lemma productsHandler_encoder_fails:
  "statusCode (productsHandler nan_rating_server newResponseWriter direct_request) = 200
   \<and> written (productsHandler nan_rating_server newResponseWriter direct_request) = []"
  by (simp add: nan_rating_server_def eval_products float64_finite_def)

end
